theory Spec2Isabelle
  imports Complex_Main
begin

section \<open>Floating-point values\<close>

text \<open>
  The program computes with Go's \<^verbatim>\<open>float64\<close>. Its behaviour on degenerate samples is
  decided by the special values of IEEE 754 arithmetic: a division of zero by zero is
  NaN, a division of a non-zero number by zero is an infinity, and every ordered
  comparison with a NaN is false. The type below keeps these special values and takes
  the finite values as real numbers: rounding and overflow of finite results and the
  sign of zero (a zero divisor counts as \<open>+0\<close>) are not represented.
\<close>

datatype float64 = Finite real | PosInf | NegInf | NaN

definition f64_of_nat :: "nat \<Rightarrow> float64" where
  "f64_of_nat n = Finite (real n)"

definition f64_of_int :: "int \<Rightarrow> float64" where
  "f64_of_int i = Finite (real_of_int i)"

fun f64_neg :: "float64 \<Rightarrow> float64" where
  "f64_neg (Finite a) = Finite (- a)"
| "f64_neg PosInf = NegInf"
| "f64_neg NegInf = PosInf"
| "f64_neg NaN = NaN"

fun f64_add :: "float64 \<Rightarrow> float64 \<Rightarrow> float64" where
  "f64_add NaN y = NaN"
| "f64_add x NaN = NaN"
| "f64_add (Finite a) (Finite b) = Finite (a + b)"
| "f64_add PosInf NegInf = NaN"
| "f64_add NegInf PosInf = NaN"
| "f64_add PosInf y = PosInf"
| "f64_add NegInf y = NegInf"
| "f64_add (Finite a) y = y"

definition f64_sub :: "float64 \<Rightarrow> float64 \<Rightarrow> float64" where
  "f64_sub x y = f64_add x (f64_neg y)"

fun f64_mul :: "float64 \<Rightarrow> float64 \<Rightarrow> float64" where
  "f64_mul NaN y = NaN"
| "f64_mul x NaN = NaN"
| "f64_mul (Finite a) (Finite b) = Finite (a * b)"
| "f64_mul (Finite a) PosInf = (if a = 0 then NaN else if 0 < a then PosInf else NegInf)"
| "f64_mul (Finite a) NegInf = (if a = 0 then NaN else if 0 < a then NegInf else PosInf)"
| "f64_mul PosInf (Finite b) = (if b = 0 then NaN else if 0 < b then PosInf else NegInf)"
| "f64_mul NegInf (Finite b) = (if b = 0 then NaN else if 0 < b then NegInf else PosInf)"
| "f64_mul PosInf PosInf = PosInf"
| "f64_mul PosInf NegInf = NegInf"
| "f64_mul NegInf PosInf = NegInf"
| "f64_mul NegInf NegInf = PosInf"

fun f64_div :: "float64 \<Rightarrow> float64 \<Rightarrow> float64" where
  "f64_div NaN y = NaN"
| "f64_div x NaN = NaN"
| "f64_div (Finite a) (Finite b) =
     (if b \<noteq> 0 then Finite (a / b)
      else if a = 0 then NaN else if 0 < a then PosInf else NegInf)"
| "f64_div (Finite a) y = Finite 0"
| "f64_div PosInf (Finite b) = (if 0 \<le> b then PosInf else NegInf)"
| "f64_div NegInf (Finite b) = (if 0 \<le> b then NegInf else PosInf)"
| "f64_div x y = NaN"

fun math_Sqrt :: "float64 \<Rightarrow> float64" where
  "math_Sqrt (Finite a) = (if a < 0 then NaN else Finite (sqrt a))"
| "math_Sqrt PosInf = PosInf"
| "math_Sqrt NegInf = NaN"
| "math_Sqrt NaN = NaN"

fun math_Abs :: "float64 \<Rightarrow> float64" where
  "math_Abs (Finite a) = Finite \<bar>a\<bar>"
| "math_Abs PosInf = PosInf"
| "math_Abs NegInf = PosInf"
| "math_Abs NaN = NaN"

text \<open>\<^verbatim>\<open>math.Pow(x, 2)\<close>, the only use of \<^verbatim>\<open>math.Pow\<close> in the program.\<close>

fun math_Pow_2 :: "float64 \<Rightarrow> float64" where
  "math_Pow_2 (Finite a) = Finite (a * a)"
| "math_Pow_2 PosInf = PosInf"
| "math_Pow_2 NegInf = PosInf"
| "math_Pow_2 NaN = NaN"

fun f64_lt :: "float64 \<Rightarrow> float64 \<Rightarrow> bool" where
  "f64_lt NaN y = False"
| "f64_lt x NaN = False"
| "f64_lt (Finite a) (Finite b) = (a < b)"
| "f64_lt x PosInf = (x \<noteq> PosInf)"
| "f64_lt NegInf y = (y \<noteq> NegInf)"
| "f64_lt x y = False"

fun f64_le :: "float64 \<Rightarrow> float64 \<Rightarrow> bool" where
  "f64_le NaN y = False"
| "f64_le x NaN = False"
| "f64_le (Finite a) (Finite b) = (a \<le> b)"
| "f64_le x PosInf = True"
| "f64_le NegInf y = True"
| "f64_le x y = False"


section \<open>The statistics library\<close>

text \<open>
  The program takes its statistics from the packages \<^verbatim>\<open>gonum.org/v1/gonum/stat\<close> and
  \<^verbatim>\<open>stat/distuv\<close>, which are not part of the repository. The operations it calls are
  parameters of the model, collected in a record, and the theorems below hold for
  every value of that record. A method of a distribution may panic on arguments
  outside its domain, and the program never recovers from a panic: the two methods
  return an option, \<open>None\<close> being the panic.

  A \<^verbatim>\<open>distuv.StudentsT\<close> has the fields \<^verbatim>\<open>Mu\<close>, \<^verbatim>\<open>Sigma\<close> and \<^verbatim>\<open>Nu\<close> (and a random source,
  which the program leaves nil). The program writes \<^verbatim>\<open>distuv.StudentsT{Nu: df}\<close>, which
  leaves \<^verbatim>\<open>Mu\<close> and \<^verbatim>\<open>Sigma\<close> at the zero value of their type.
\<close>

record StudentsT =
  Mu :: float64
  Sigma :: float64
  Nu :: float64

record gonum =
  stat_Mean :: "float64 list \<Rightarrow> float64"
  stat_Variance :: "float64 list \<Rightarrow> float64"
  stat_StdDev :: "float64 list \<Rightarrow> float64"
  StudentsT_Survival :: "StudentsT \<Rightarrow> float64 \<Rightarrow> float64 option"
  StudentsT_Quantile :: "StudentsT \<Rightarrow> float64 \<Rightarrow> float64 option"

section \<open>Data model\<close>

text \<open>
  A \<^verbatim>\<open>time.Time\<close> is an instant in whole seconds since the Unix epoch, read in UTC,
  which is what \<^verbatim>\<open>time.Parse\<close> yields for the layout \<^verbatim>\<open>2006-01-02 15:04:05\<close>.
  The epoch fell on a Thursday, weekday 4 of Go's numbering from Sunday.
\<close>

type_synonym Time = int



definition time_zero :: Time where
  "time_zero = - 62135596800"

record Measurement =
  Date :: Time
  Value :: float64
  Label :: string

record TimeSeries =
  ts_Label :: string
  Measurements :: "Measurement list"
  MinDate :: Time
  MaxDate :: Time

record AnalysisResult =
  Mean :: float64
  Count :: int
  StdDev :: float64
  ConfidenceInterval :: "float64 \<times> float64"

record TimeSegmentAnalysis =
  Benchmark :: AnalysisResult
  Experiment :: AnalysisResult
  Difference :: float64
  PValue :: float64
  Significant :: bool

section \<open>Statistics engine\<close>

definition welchTTest :: "gonum \<Rightarrow> float64 list \<Rightarrow> float64 list \<Rightarrow> (float64 \<times> float64) option" where
  "welchTTest L x y =
     (let nx = f64_of_nat (length x);
          ny = f64_of_nat (length y)
      in if f64_lt nx (Finite 2) \<or> f64_lt ny (Finite 2) then Some (Finite 0, Finite 1)
         else
           let meanX = stat_Mean L x;
               meanY = stat_Mean L y;
               varX = stat_Variance L x;
               varY = stat_Variance L y;
               t = f64_div (f64_sub meanX meanY)
                     (math_Sqrt (f64_add (f64_div varX nx) (f64_div varY ny)));
               df = f64_div (math_Pow_2 (f64_add (f64_div varX nx) (f64_div varY ny)))
                      (f64_add
                         (f64_div (math_Pow_2 (f64_div varX nx)) (f64_sub nx (Finite 1)))
                         (f64_div (math_Pow_2 (f64_div varY ny)) (f64_sub ny (Finite 1))));
               dist = \<lparr>Mu = Finite 0, Sigma = Finite 0, Nu = df\<rparr>
           in case StudentsT_Survival L dist (math_Abs t) of
                None \<Rightarrow> None
              | Some s \<Rightarrow> Some (t, f64_mul (Finite 2) s))"

definition confidenceInterval :: "gonum \<Rightarrow> float64 list \<Rightarrow> float64 \<Rightarrow> (float64 \<times> float64) option" where
  "confidenceInterval L values confidenceLevel =
     (let mean = stat_Mean L values;
          stdErr = f64_div (stat_StdDev L values) (math_Sqrt (f64_of_nat (length values)));
          dist = \<lparr>Mu = Finite 0, Sigma = Finite 0, Nu = f64_of_int (int (length values) - 1)\<rparr>
      in case StudentsT_Quantile L dist (f64_div (f64_add (Finite 1) confidenceLevel) (Finite 2)) of
           None \<Rightarrow> None
         | Some tValue \<Rightarrow>
             let margin = f64_mul tValue stdErr
             in Some (f64_sub mean margin, f64_add mean margin))"

section \<open>Series partitioner\<close>

text \<open>
  \<^verbatim>\<open>getUniqueLabels\<close> collects the labels as the keys of a Go map and returns them in
  the map's iteration order, which the language leaves unspecified: any duplicate-free
  list of exactly the labels of the data is a possible result.
\<close>

definition getUniqueLabels_returns :: "Measurement list \<Rightarrow> string list \<Rightarrow> bool" where
  "getUniqueLabels_returns data labels \<longleftrightarrow> distinct labels \<and> set labels = set (map Label data)"

text \<open>The loop of \<^verbatim>\<open>filterByLabel\<close>, on the records not yet visited and the three variables it updates.\<close>

fun filterByLabel_loop ::
  "string \<Rightarrow> Measurement list \<Rightarrow> Measurement list \<times> Time \<times> Time \<Rightarrow> Measurement list \<times> Time \<times> Time" where
  "filterByLabel_loop label [] acc = acc"
| "filterByLabel_loop label (m # ms) (filtered, minDate, maxDate) =
     (if Label m = label
      then filterByLabel_loop label ms
             (filtered @ [m],
              if Date m < minDate then Date m else minDate,
              if Date m > maxDate then Date m else maxDate)
      else filterByLabel_loop label ms (filtered, minDate, maxDate))"

text \<open>The first argument is the value of \<^verbatim>\<open>time.Now()\<close> at the call.\<close>

definition filterByLabel :: "Time \<Rightarrow> Measurement list \<Rightarrow> string \<Rightarrow> TimeSeries" where
  "filterByLabel now data label =
     (case filterByLabel_loop label data ([], now, time_zero) of
        (filtered, minDate, maxDate) \<Rightarrow>
          \<lparr>ts_Label = label, Measurements = filtered, MinDate = minDate, MaxDate = maxDate\<rparr>)"

definition measurementsToValues :: "Measurement list \<Rightarrow> float64 list" where
  "measurementsToValues measurements = map Value measurements"




section \<open>Segment analyzer\<close>

definition analyzeSegment ::
  "gonum \<Rightarrow> Measurement list \<Rightarrow> Measurement list \<Rightarrow> float64 \<Rightarrow> TimeSegmentAnalysis option" where
  "analyzeSegment L benchmark experiment confidenceLevel =
     (let benchValues = measurementsToValues benchmark;
          expValues = measurementsToValues experiment;
          benchMean = stat_Mean L benchValues;
          expMean = stat_Mean L expValues;
          benchStdDev = stat_StdDev L benchValues;
          expStdDev = stat_StdDev L expValues
      in case welchTTest L benchValues expValues of
           None \<Rightarrow> None
         | Some (t, pValue) \<Rightarrow>
            (case confidenceInterval L benchValues confidenceLevel of
               None \<Rightarrow> None
             | Some benchCI \<Rightarrow>
                (case confidenceInterval L expValues confidenceLevel of
                   None \<Rightarrow> None
                 | Some expCI \<Rightarrow>
                     Some \<lparr>Benchmark = \<lparr>Mean = benchMean, Count = int (length benchValues),
                                        StdDev = benchStdDev, ConfidenceInterval = benchCI\<rparr>,
                           Experiment = \<lparr>Mean = expMean, Count = int (length expValues),
                                         StdDev = expStdDev, ConfidenceInterval = expCI\<rparr>,
                           Difference = f64_mul (f64_div (f64_sub expMean benchMean) benchMean) (Finite 100),
                           PValue = pValue,
                           Significant = f64_lt pValue (f64_sub (Finite 1) confidenceLevel)\<rparr>)))"








section \<open>A library instance\<close>

text \<open>
  Modelled from the spec: the statistics library, whose code is not in the repository.
  The spec (section 4.2) describes its mean and standard deviation as the standard
  ones with denominator \<open>n\<close>, and the two distribution methods as the upper-tail
  probability and the quantile function of Student's t distribution with \<open>Nu\<close>
  degrees of freedom; it calls degrees of freedom that are not positive an invalid
  parameter. The instance reads \<open>Nu\<close> only. It rejects degrees of freedom that are not
  positive. With one and with two degrees of freedom the distribution has a closed form,
  \<open>1/2 - arctan x / pi\<close> and \<open>tan (pi * (p - 1/2))\<close> with one,
  \<open>1/2 - x / (2 * sqrt (x\<^sup>2 + 2))\<close> and \<open>(2 * p - 1) / sqrt (2 * p * (1 - p))\<close> with two,
  which the instance implements. For other positive degrees of freedom the value is a
  real number that the instance leaves open; no theorem below evaluates it there. For
  degrees of freedom that are not a finite number it answers NaN. The theorems are
  stated for every library; the instance serves to exhibit inputs.
\<close>

definition f64_sum :: "float64 list \<Rightarrow> float64" where
  "f64_sum xs = foldl f64_add (Finite 0) xs"

definition ref_Mean :: "float64 list \<Rightarrow> float64" where
  "ref_Mean xs = f64_div (f64_sum xs) (f64_of_nat (length xs))"

definition ref_Variance :: "float64 list \<Rightarrow> float64" where
  "ref_Variance xs =
     f64_div (f64_sum (map (\<lambda>x. math_Pow_2 (f64_sub x (ref_Mean xs))) xs)) (f64_of_nat (length xs))"

definition ref_StdDev :: "float64 list \<Rightarrow> float64" where
  "ref_StdDev xs = math_Sqrt (ref_Variance xs)"

definition std_t_survival :: "real \<Rightarrow> real \<Rightarrow> real" where
  "std_t_survival \<nu> x =
     (if \<nu> = 1 then 1 / 2 - arctan x / pi
      else if \<nu> = 2 then 1 / 2 - x / (2 * sqrt (x * x + 2))
      else (SOME s. True))"

definition std_t_quantile :: "real \<Rightarrow> real \<Rightarrow> real" where
  "std_t_quantile \<nu> p =
     (if \<nu> = 1 then tan (pi * (p - 1 / 2))
      else if \<nu> = 2 then (2 * p - 1) / sqrt (2 * p * (1 - p))
      else (SOME q. True))"

fun t_survival :: "real \<Rightarrow> float64 \<Rightarrow> float64" where
  "t_survival \<nu> (Finite x) = Finite (std_t_survival \<nu> x)"
| "t_survival \<nu> PosInf = Finite 0"
| "t_survival \<nu> NegInf = Finite 1"
| "t_survival \<nu> NaN = NaN"

fun t_quantile :: "real \<Rightarrow> float64 \<Rightarrow> float64" where
  "t_quantile \<nu> (Finite p) =
     (if 0 < p \<and> p < 1 then Finite (std_t_quantile \<nu> p)
      else if p = 0 then NegInf else if p = 1 then PosInf else NaN)"
| "t_quantile \<nu> p = NaN"

definition ref_Survival :: "StudentsT \<Rightarrow> float64 \<Rightarrow> float64 option" where
  "ref_Survival s x =
     (case Nu s of
        Finite \<nu> \<Rightarrow> if \<nu> \<le> 0 then None else Some (t_survival \<nu> x)
      | _ \<Rightarrow> Some NaN)"

definition ref_Quantile :: "StudentsT \<Rightarrow> float64 \<Rightarrow> float64 option" where
  "ref_Quantile s p =
     (case Nu s of
        Finite \<nu> \<Rightarrow> if \<nu> \<le> 0 then None else Some (t_quantile \<nu> p)
      | _ \<Rightarrow> Some NaN)"

definition ref_gonum :: gonum where
  "ref_gonum =
     \<lparr>stat_Mean = ref_Mean, stat_Variance = ref_Variance, stat_StdDev = ref_StdDev,
      StudentsT_Survival = ref_Survival, StudentsT_Quantile = ref_Quantile\<rparr>"

section \<open>Segment keys\<close>


section \<open>Intervals\<close>

text \<open>
  A number lies in an interval when it is between the two ends, in the order of
  \<^verbatim>\<open>float64\<close>; no number lies in an interval one of whose ends is NaN. An interval
  contains another when it has every number of the other.
\<close>

definition interval_mem :: "float64 \<Rightarrow> float64 \<times> float64 \<Rightarrow> bool" where
  "interval_mem x iv \<longleftrightarrow> f64_le (fst iv) x \<and> f64_le x (snd iv)"

definition interval_contains :: "float64 \<times> float64 \<Rightarrow> float64 \<times> float64 \<Rightarrow> bool" where
  "interval_contains outer inner \<longleftrightarrow> (\<forall>x. interval_mem x inner \<longrightarrow> interval_mem x outer)"

text \<open>
  Modelled from the spec: the \<^verbatim>\<open>Quantile\<close> method of \<^verbatim>\<open>distuv.StudentsT\<close>, whose code is
  not in the repository, on degrees of freedom that are not positive. The spec
  (section 4.2) calls them an invalid parameter of the quantile function, not to be
  passed to it; the predicate says of a library \<open>L\<close> that the method rejects them by
  panicking.
\<close>

definition quantile_rejects_nonpositive :: "gonum \<Rightarrow> bool" where
  "quantile_rejects_nonpositive L \<longleftrightarrow>
     (\<forall>s p \<nu>. Nu s = Finite \<nu> \<and> \<nu> \<le> 0 \<longrightarrow> StudentsT_Quantile L s p = None)"


text \<open>
  Modelled from the spec: the \<^verbatim>\<open>Quantile\<close> method of \<^verbatim>\<open>distuv.StudentsT\<close>, whose code is
  not in the repository. The spec describes it as the quantile function (the inverse
  of the cumulative distribution function) of Student's t distribution. Such a
  function is finite and nondecreasing strictly inside the unit interval; the predicate
  says so of a library \<open>L\<close> and a distribution \<open>s\<close> on the percentiles above one half,
  where \<open>(1 + c) / 2\<close> lies for a confidence level \<open>c\<close> between 0 and 1.
\<close>

definition quantile_nondecreasing :: "gonum \<Rightarrow> StudentsT \<Rightarrow> bool" where
  "quantile_nondecreasing L s \<longleftrightarrow>
     (\<forall>p p'. 1 / 2 < p \<and> p \<le> p' \<and> p' < 1 \<longrightarrow>
        (\<exists>q q'. StudentsT_Quantile L s (Finite p) = Some (Finite q)
               \<and> StudentsT_Quantile L s (Finite p') = Some (Finite q')
               \<and> q \<le> q'))"

section \<open>Properties of the statistics engine\<close>

subsection \<open>Samples with fewer than two observations\<close>

lemma welchTTest_short:
  "length x < 2 \<or> length y < 2 \<Longrightarrow> welchTTest L x y = Some (Finite 0, Finite 1)"
  by (auto simp: welchTTest_def f64_of_nat_def Let_def)

lemma analyzeSegment_None_iff:
  "analyzeSegment L b e c = None \<longleftrightarrow>
     welchTTest L (measurementsToValues b) (measurementsToValues e) = None
     \<or> confidenceInterval L (measurementsToValues b) c = None
     \<or> confidenceInterval L (measurementsToValues e) c = None"
  by (auto simp: analyzeSegment_def Let_def split: option.splits)

lemma analyzeSegment_PValue:
  "analyzeSegment L b e c = Some seg \<Longrightarrow>
   \<exists>t. welchTTest L (measurementsToValues b) (measurementsToValues e) = Some (t, PValue seg)"
  by (auto simp: analyzeSegment_def Let_def split: option.splits)

lemma analyzeSegment_Significant:
  "analyzeSegment L b e c = Some seg \<Longrightarrow>
   Significant seg = f64_lt (PValue seg) (f64_sub (Finite 1) c)"
  by (auto simp: analyzeSegment_def Let_def split: option.splits)

text \<open>
  A sample of fewer than two values makes \<open>confidenceInterval\<close> ask for the quantile
  of a distribution whose degrees of freedom are not positive. With a library that
  rejects them, neither \<open>confidenceInterval\<close> nor \<open>analyzeSegment\<close> returns.
\<close>

lemma confidenceInterval_short_rejected:
  assumes "quantile_rejects_nonpositive L" and "length values < 2"
  shows "confidenceInterval L values c = None"
proof -
  from assms(2) have "real_of_int (int (length values) - 1) \<le> 0" by simp
  with assms(1) have "StudentsT_Quantile L
      \<lparr>Mu = Finite 0, Sigma = Finite 0, Nu = Finite (real_of_int (int (length values) - 1))\<rparr> p = None"
    for p
    unfolding quantile_rejects_nonpositive_def by simp
  then show ?thesis
    by (simp add: confidenceInterval_def Let_def f64_of_int_def)
qed

lemma analyzeSegment_short_rejected:
  assumes "quantile_rejects_nonpositive L" and "length b < 2 \<or> length e < 2"
  shows "analyzeSegment L b e c = None"
proof -
  from assms(2) have "length (measurementsToValues b) < 2 \<or> length (measurementsToValues e) < 2"
    by (simp add: measurementsToValues_def)
  then have "confidenceInterval L (measurementsToValues b) c = None
      \<or> confidenceInterval L (measurementsToValues e) c = None"
    using confidenceInterval_short_rejected[OF assms(1), of "measurementsToValues b" c]
      confidenceInterval_short_rejected[OF assms(1), of "measurementsToValues e" c]
    by auto
  then show ?thesis by (auto simp: analyzeSegment_None_iff)
qed

text \<open>The definitions that evaluate the library instance.\<close>

lemmas ref_defs = ref_gonum_def ref_Mean_def ref_Variance_def ref_StdDev_def ref_Survival_def
  ref_Quantile_def std_t_survival_def std_t_quantile_def f64_sum_def f64_sub_def f64_of_nat_def
  f64_of_int_def

lemma ref_gonum_rejects_nonpositive: "quantile_rejects_nonpositive ref_gonum"
  by (simp add: quantile_rejects_nonpositive_def ref_gonum_def ref_Quantile_def)

lemma confidenceInterval_ref_gonum:
  "2 \<le> length values \<Longrightarrow> confidenceInterval ref_gonum values c \<noteq> None"
  by (simp add: confidenceInterval_def Let_def ref_gonum_def ref_Quantile_def f64_of_int_def)

text \<open>
  Claim C3. When either sample has fewer than two observations, \<open>welchTTest\<close> returns
  exactly \<open>t = 0\<close> and \<open>p = 1\<close>, before any call of the library. \<open>analyzeSegment\<close> then
  goes on to \<open>confidenceInterval\<close>, which has no such branch and passes the sample on:
  with a library that rejects degrees of freedom that are not positive, no segment
  results for a side of fewer than two measurements, and so none for the baseline
  \<open>[100]\<close> against the experiment \<open>[90, 110]\<close>.
\<close>

theorem welchTTest_small_sample:
  "(length x < 2 \<or> length y < 2 \<longrightarrow> welchTTest L x y = Some (Finite 0, Finite 1))
   \<and> (quantile_rejects_nonpositive L \<and> (length b < 2 \<or> length e < 2)
        \<longrightarrow> analyzeSegment L b e c = None)"
  using welchTTest_short[of x y L] analyzeSegment_short_rejected[of L b e c]
  by blast

theorem welchTTest_small_sample_witness:
  "quantile_rejects_nonpositive ref_gonum
   \<and> welchTTest ref_gonum [Finite 100] [Finite 90, Finite 110] = Some (Finite 0, Finite 1)
   \<and> analyzeSegment ref_gonum
       [\<lparr>Date = 0, Value = Finite 100, Label = ''a''\<rparr>]
       [\<lparr>Date = 0, Value = Finite 90, Label = ''b''\<rparr>, \<lparr>Date = 3600, Value = Finite 110, Label = ''b''\<rparr>]
       (Finite (95 / 100))
     = None"
proof -
  let ?b = "[\<lparr>Date = 0, Value = Finite 100, Label = ''a''\<rparr>]"
  let ?e = "[\<lparr>Date = 0, Value = Finite 90, Label = ''b''\<rparr>, \<lparr>Date = 3600, Value = Finite 110, Label = ''b''\<rparr>]"
  have len: "length [Finite 100] < 2 \<or> length [Finite 90, Finite 110] < 2"
    "length ?b < 2 \<or> length ?e < 2"
    by simp_all
  from welchTTest_small_sample[of "[Finite 100]" "[Finite 90, Finite 110]" ref_gonum ?b ?e
      "Finite (95 / 100)"] len ref_gonum_rejects_nonpositive
  show ?thesis by blast
qed

subsection \<open>A NaN p-value\<close>

lemma welchTTest_ref_constant:
  "welchTTest ref_gonum [Finite 10, Finite 10] [Finite 10, Finite 10] = Some (NaN, NaN)"
  by (simp add: welchTTest_def Let_def ref_defs)

text \<open>
  Claim C10. The significance flag of a segment is the comparison
  \<open>pValue < 1 - confidenceLevel\<close> on the p-value of \<open>welchTTest\<close>, and a comparison with
  NaN is false: whenever the p-value of a segment is NaN, the segment is not
  significant, whatever the library and the confidence level.
\<close>

theorem nan_pvalue_not_significant:
  "(analyzeSegment L b e c = Some seg \<and> PValue seg = NaN \<longrightarrow> \<not> Significant seg)
   \<and> (analyzeSegment L b e c = Some seg \<longrightarrow>
        Significant seg = f64_lt (PValue seg) (f64_sub (Finite 1) c)
        \<and> (\<exists>t. welchTTest L (measurementsToValues b) (measurementsToValues e) = Some (t, PValue seg)))"
  using analyzeSegment_Significant[of L b e c seg] analyzeSegment_PValue[of L b e c seg]
  by auto

text \<open>
  Two constant and equal samples of two measurements each: with the library instance the
  p-value is NaN, and the segment is not significant.
\<close>

theorem nan_pvalue_not_significant_witness:
  "map_option (\<lambda>seg. (PValue seg, Significant seg))
     (analyzeSegment ref_gonum
        [\<lparr>Date = 0, Value = Finite 10, Label = ''a''\<rparr>, \<lparr>Date = 60, Value = Finite 10, Label = ''a''\<rparr>]
        [\<lparr>Date = 0, Value = Finite 10, Label = ''b''\<rparr>, \<lparr>Date = 60, Value = Finite 10, Label = ''b''\<rparr>]
        (Finite (95 / 100)))
   = Some (NaN, False)"
proof -
  let ?b = "[\<lparr>Date = 0, Value = Finite 10, Label = ''a''\<rparr>, \<lparr>Date = 60, Value = Finite 10, Label = ''a''\<rparr>]"
  let ?e = "[\<lparr>Date = 0, Value = Finite 10, Label = ''b''\<rparr>, \<lparr>Date = 60, Value = Finite 10, Label = ''b''\<rparr>]"
  let ?c = "Finite (95 / 100)"
  have "analyzeSegment ref_gonum ?b ?e ?c \<noteq> None"
    by (simp add: analyzeSegment_None_iff measurementsToValues_def welchTTest_ref_constant
        confidenceInterval_ref_gonum)
  then obtain seg where s: "analyzeSegment ref_gonum ?b ?e ?c = Some seg" by blast
  from analyzeSegment_PValue[OF s] have p: "PValue seg = NaN"
    by (simp add: measurementsToValues_def welchTTest_ref_constant)
  with s nan_pvalue_not_significant[of ref_gonum ?b ?e ?c seg]
  have "\<not> Significant seg" by blast
  with s p show ?thesis by simp
qed

subsection \<open>Constant and equal samples\<close>

text \<open>
  Claim C2, as the spec states it, fails: for the constant samples \<open>[10, 10]\<close> and
  \<open>[10, 10]\<close> the means are equal and the variances zero, the t statistic is the
  quotient of zero by zero, and \<open>welchTTest\<close> returns NaN for it, not 0; with the
  library instance the p-value is NaN too, not 1.
\<close>

theorem welchTTest_zero_variance_counterexample:
  "welchTTest ref_gonum [Finite 10, Finite 10] [Finite 10, Finite 10] = Some (NaN, NaN)
   \<and> (NaN, NaN) \<noteq> (Finite 0, Finite 1)"
  by (simp add: welchTTest_ref_constant)

text \<open>
  Claim C2, amended. \<open>welchTTest\<close> has no branch for zero variances. For two samples of
  at least two values each, for which the library reports the same finite mean and the
  variance zero (as it does for two constant samples of the same value), the t
  statistic is NaN, the degrees of freedom are NaN, and the p-value is twice what the
  library's survival function returns for NaN degrees of freedom at NaN.
\<close>

theorem welchTTest_zero_variance:
  assumes "2 \<le> length x" and "2 \<le> length y"
    and "stat_Mean L x = Finite m" and "stat_Mean L y = Finite m"
    and "stat_Variance L x = Finite 0" and "stat_Variance L y = Finite 0"
  shows "welchTTest L x y =
           map_option (\<lambda>s. (NaN, f64_mul (Finite 2) s))
             (StudentsT_Survival L \<lparr>Mu = Finite 0, Sigma = Finite 0, Nu = NaN\<rparr> NaN)"
proof -
  define nx where "nx = real (length x)"
  define ny where "ny = real (length y)"
  from assms(1,2) have n: "nx \<noteq> 0" "nx - 1 \<noteq> 0" "\<not> nx < 2" "ny \<noteq> 0" "ny - 1 \<noteq> 0" "\<not> ny < 2"
    by (auto simp: nx_def ny_def)
  show ?thesis
    unfolding welchTTest_def Let_def f64_of_nat_def f64_sub_def assms(3-6)
      nx_def[symmetric] ny_def[symmetric]
    using n by (simp split: option.split)
qed

theorem welchTTest_zero_variance_witness:
  "2 \<le> length (replicate 4 (Finite 10)) \<and> 2 \<le> length (replicate 3 (Finite 10))
   \<and> stat_Mean ref_gonum (replicate 4 (Finite 10)) = Finite 10
   \<and> stat_Mean ref_gonum (replicate 3 (Finite 10)) = Finite 10
   \<and> stat_Variance ref_gonum (replicate 4 (Finite 10)) = Finite 0
   \<and> stat_Variance ref_gonum (replicate 3 (Finite 10)) = Finite 0
   \<and> welchTTest ref_gonum (replicate 4 (Finite 10)) (replicate 3 (Finite 10)) = Some (NaN, NaN)"
proof -
  have h: "2 \<le> length (replicate 4 (Finite 10))" "2 \<le> length (replicate 3 (Finite 10))"
    "stat_Mean ref_gonum (replicate 4 (Finite 10)) = Finite 10"
    "stat_Mean ref_gonum (replicate 3 (Finite 10)) = Finite 10"
    "stat_Variance ref_gonum (replicate 4 (Finite 10)) = Finite 0"
    "stat_Variance ref_gonum (replicate 3 (Finite 10)) = Finite 0"
    by (simp_all add: ref_defs numeral_eq_Suc)
  from welchTTest_zero_variance[OF h]
  have "welchTTest ref_gonum (replicate 4 (Finite 10)) (replicate 3 (Finite 10)) = Some (NaN, NaN)"
    by (simp add: ref_defs)
  with h show ?thesis by simp
qed

subsection \<open>Confidence interval of fewer than two values\<close>

text \<open>
  Claim C5. \<open>confidenceInterval\<close> has no branch for a sample of fewer than two values,
  unlike \<open>welchTTest\<close>. For the sample \<open>[100]\<close> it asks the library for the quantile of
  a distribution with 0 degrees of freedom, for the empty sample with \<open>-1\<close>, and its
  result is what the library makes of that call: no interval when the call panics,
  and otherwise the interval computed from the value returned.
\<close>

theorem confidenceInterval_single_value:
  "confidenceInterval L [Finite 100] (Finite (95 / 100)) =
     map_option
       (\<lambda>tValue. (f64_sub (stat_Mean L [Finite 100]) (f64_mul tValue (f64_div (stat_StdDev L [Finite 100]) (Finite 1))),
                  f64_add (stat_Mean L [Finite 100]) (f64_mul tValue (f64_div (stat_StdDev L [Finite 100]) (Finite 1)))))
       (StudentsT_Quantile L \<lparr>Mu = Finite 0, Sigma = Finite 0, Nu = Finite 0\<rparr> (Finite (39 / 40)))
   \<and> confidenceInterval L [] (Finite (95 / 100)) =
     map_option
       (\<lambda>tValue. (f64_sub (stat_Mean L []) (f64_mul tValue (f64_div (stat_StdDev L []) (Finite 0))),
                  f64_add (stat_Mean L []) (f64_mul tValue (f64_div (stat_StdDev L []) (Finite 0)))))
       (StudentsT_Quantile L \<lparr>Mu = Finite 0, Sigma = Finite 0, Nu = Finite (- 1)\<rparr> (Finite (39 / 40)))"
  by (simp add: confidenceInterval_def Let_def f64_of_nat_def f64_of_int_def split: option.split)

subsection \<open>Zero variances and differing means\<close>

text \<open>
  \<open>welchTTest\<close> has no treatment of its own for two samples of variance zero whose
  means differ either. The t statistic is then an infinity and the degrees of freedom
  are NaN, and the p-value is twice what the library's survival function returns for
  NaN degrees of freedom at infinity. For the samples \<open>[10, 10, 10, 10]\<close> and
  \<open>[11, 11, 11, 11]\<close> the percentage difference of the means is 10.
\<close>

lemma welchTTest_zero_variance_differing_means:
  assumes "2 \<le> length x" and "2 \<le> length y"
    and "stat_Mean L x = Finite mx" and "stat_Mean L y = Finite my" and "mx < my"
    and "stat_Variance L x = Finite 0" and "stat_Variance L y = Finite 0"
  shows "welchTTest L x y =
           map_option (\<lambda>s. (NegInf, f64_mul (Finite 2) s))
             (StudentsT_Survival L \<lparr>Mu = Finite 0, Sigma = Finite 0, Nu = NaN\<rparr> PosInf)"
proof -
  define nx where "nx = real (length x)"
  define ny where "ny = real (length y)"
  from assms(1,2) have n: "nx \<noteq> 0" "nx - 1 \<noteq> 0" "\<not> nx < 2" "ny \<noteq> 0" "ny - 1 \<noteq> 0" "\<not> ny < 2"
    by (auto simp: nx_def ny_def)
  show ?thesis
    unfolding welchTTest_def Let_def f64_of_nat_def f64_sub_def assms(3,4,6,7)
      nx_def[symmetric] ny_def[symmetric]
    using n assms(5) by (simp split: option.split)
qed

lemma analyzeSegment_Difference:
  "analyzeSegment L b e c = Some seg \<Longrightarrow>
   Difference seg =
     f64_mul (f64_div (f64_sub (stat_Mean L (measurementsToValues e)) (stat_Mean L (measurementsToValues b)))
                (stat_Mean L (measurementsToValues b))) (Finite 100)"
  by (auto simp: analyzeSegment_def Let_def split: option.splits)

lemma difference_10_11:
  "f64_mul (f64_div (f64_sub (Finite 11) (Finite 10)) (Finite 10)) (Finite 100) = Finite 10"
  by (simp add: f64_sub_def)

section \<open>Properties of the segment analyzer\<close>

subsection \<open>Keys of the analysis set\<close>


















section \<open>Properties of the series partitioner\<close>

lemma filterByLabel_loop_filtered:
  "fst (filterByLabel_loop label ms (filtered, minDate, maxDate))
     = filtered @ filter (\<lambda>m. Label m = label) ms"
  by (induction ms arbitrary: filtered minDate maxDate) auto

lemma filterByLabel_Measurements:
  "Measurements (filterByLabel now data label) = filter (\<lambda>m. Label m = label) data"
  using filterByLabel_loop_filtered[of label data "[]" now time_zero]
  by (auto simp: filterByLabel_def split: prod.splits)

lemma count_one_label:
  "distinct labels \<Longrightarrow> l \<in> set labels \<Longrightarrow>
   (\<Sum>k\<leftarrow>labels. if l = k then 1 else 0) = (1::nat)"
  by (induction labels) auto

lemma partition_counts:
  "distinct labels \<Longrightarrow> Label ` set data \<subseteq> set labels \<Longrightarrow>
   (\<Sum>l\<leftarrow>labels. length (filter (\<lambda>m. Label m = l) data)) = length data"
proof (induction data)
  case Nil
  then show ?case by simp
next
  case (Cons m ms)
  have "(\<Sum>l\<leftarrow>labels. length (filter (\<lambda>m. Label m = l) (m # ms)))
      = (\<Sum>l\<leftarrow>labels. (if Label m = l then 1 else 0) + length (filter (\<lambda>m. Label m = l) ms))"
    by (rule arg_cong[where f = sum_list]) (rule map_cong, simp_all)
  also have "\<dots> = (\<Sum>l\<leftarrow>labels. if Label m = l then 1 else 0)
      + (\<Sum>l\<leftarrow>labels. length (filter (\<lambda>m. Label m = l) ms))"
    by (simp add: sum_list_addf)
  also have "\<dots> = 1 + length ms"
    using Cons count_one_label[of labels "Label m"] by simp
  finally show ?case by simp
qed

text \<open>
  Claim C9. \<open>filterByLabel\<close> selects exactly the records whose label equals the given
  one, in the order of the input. Every record has one label, so the labels partition
  the records: over the distinct labels of the data, in whatever order
  \<open>getUniqueLabels\<close> returns them, the measurement counts of the filtered series add up
  to the number of records.
\<close>

theorem filterByLabel_partition:
  "Measurements (filterByLabel now data label) = filter (\<lambda>m. Label m = label) data
   \<and> (getUniqueLabels_returns data labels \<longrightarrow>
        (\<Sum>l\<leftarrow>labels. length (Measurements (filterByLabel now data l))) = length data)"
  using partition_counts[of labels data]
  by (simp add: filterByLabel_Measurements getUniqueLabels_returns_def)

theorem filterByLabel_partition_witness:
  "getUniqueLabels_returns
     [\<lparr>Date = 0, Value = Finite 1, Label = ''a''\<rparr>, \<lparr>Date = 60, Value = Finite 2, Label = ''b''\<rparr>,
      \<lparr>Date = 120, Value = Finite 3, Label = ''a''\<rparr>] [''b'', ''a'']
   \<and> (\<Sum>l\<leftarrow>[''b'', ''a''].
        length (Measurements (filterByLabel 0
          [\<lparr>Date = 0, Value = Finite 1, Label = ''a''\<rparr>, \<lparr>Date = 60, Value = Finite 2, Label = ''b''\<rparr>,
           \<lparr>Date = 120, Value = Finite 3, Label = ''a''\<rparr>] l))) = 3
   \<and> Measurements (filterByLabel 0
          [\<lparr>Date = 0, Value = Finite 1, Label = ''a''\<rparr>, \<lparr>Date = 60, Value = Finite 2, Label = ''b''\<rparr>,
           \<lparr>Date = 120, Value = Finite 3, Label = ''a''\<rparr>] ''a'')
       = [\<lparr>Date = 0, Value = Finite 1, Label = ''a''\<rparr>, \<lparr>Date = 120, Value = Finite 3, Label = ''a''\<rparr>]"
proof -
  let ?data = "[\<lparr>Date = 0, Value = Finite 1, Label = ''a''\<rparr>, \<lparr>Date = 60, Value = Finite 2, Label = ''b''\<rparr>,
      \<lparr>Date = 120, Value = Finite 3, Label = ''a''\<rparr>]"
  have u: "getUniqueLabels_returns ?data [''b'', ''a'']"
    by (auto simp: getUniqueLabels_returns_def)
  from filterByLabel_partition[of 0 ?data "''a''" "[''b'', ''a'']"] u
  have "Measurements (filterByLabel 0 ?data ''a'') = filter (\<lambda>m. Label m = ''a'') ?data"
    and "(\<Sum>l\<leftarrow>[''b'', ''a'']. length (Measurements (filterByLabel 0 ?data l))) = length ?data"
    by blast+
  with u show ?thesis by simp
qed

section \<open>Properties of the confidence interval\<close>

lemma confidenceInterval_eq:
  assumes "StudentsT_Quantile L
             \<lparr>Mu = Finite 0, Sigma = Finite 0, Nu = Finite (real (length values) - 1)\<rparr>
             (f64_div (f64_add (Finite 1) c) (Finite 2)) = Some tValue"
  shows "confidenceInterval L values c =
     Some (f64_sub (stat_Mean L values)
             (f64_mul tValue (f64_div (stat_StdDev L values) (math_Sqrt (Finite (real (length values)))))),
           f64_add (stat_Mean L values)
             (f64_mul tValue (f64_div (stat_StdDev L values) (math_Sqrt (Finite (real (length values)))))))"
  using assms by (simp add: confidenceInterval_def Let_def f64_of_nat_def f64_of_int_def)

subsection \<open>Widening with the confidence level\<close>

lemma interval_finite_margins:
  "g1 \<le> g2 \<Longrightarrow>
   interval_contains (f64_sub M (Finite g2), f64_add M (Finite g2))
                     (f64_sub M (Finite g1), f64_add M (Finite g1))"
  unfolding interval_contains_def interval_mem_def
proof (intro allI impI)
  fix x
  assume "g1 \<le> g2"
    and "f64_le (fst (f64_sub M (Finite g1), f64_add M (Finite g1))) x \<and>
         f64_le x (snd (f64_sub M (Finite g1), f64_add M (Finite g1)))"
  then show "f64_le (fst (f64_sub M (Finite g2), f64_add M (Finite g2))) x \<and>
         f64_le x (snd (f64_sub M (Finite g2), f64_add M (Finite g2)))"
    by (cases M; cases x) (auto simp: f64_sub_def)
qed

lemma interval_infinite_margins:
  "q1 \<le> q2 \<Longrightarrow>
   interval_contains (f64_sub M (f64_mul (Finite q2) PosInf), f64_add M (f64_mul (Finite q2) PosInf))
                     (f64_sub M (f64_mul (Finite q1) PosInf), f64_add M (f64_mul (Finite q1) PosInf))"
  unfolding interval_contains_def interval_mem_def
proof (intro allI impI)
  fix x
  assume "q1 \<le> q2"
    and "f64_le (fst (f64_sub M (f64_mul (Finite q1) PosInf), f64_add M (f64_mul (Finite q1) PosInf))) x \<and>
         f64_le x (snd (f64_sub M (f64_mul (Finite q1) PosInf), f64_add M (f64_mul (Finite q1) PosInf)))"
  then show "f64_le (fst (f64_sub M (f64_mul (Finite q2) PosInf), f64_add M (f64_mul (Finite q2) PosInf))) x \<and>
         f64_le x (snd (f64_sub M (f64_mul (Finite q2) PosInf), f64_add M (f64_mul (Finite q2) PosInf)))"
    by (cases M; cases x) (auto simp: f64_sub_def split: if_splits)
qed

lemma interval_nan_margin:
  "interval_contains outer (f64_sub M NaN, f64_add M NaN)"
  by (cases M) (auto simp: interval_contains_def interval_mem_def f64_sub_def)

text \<open>
  Claim C7. Take a sample of at least two values and two confidence levels
  \<open>c1 \<le> c2\<close> strictly between 0 and 1, a library whose quantile for \<open>n - 1\<close> degrees of
  freedom is nondecreasing, as a quantile function is, and whose standard deviation of
  the sample is not negative. Then \<open>confidenceInterval\<close> returns an interval at both
  levels and the one at \<open>c2\<close> contains the one at \<open>c1\<close>; when the mean and the standard
  deviation are finite, its lower end is no larger and its upper end no smaller.
\<close>

theorem confidenceInterval_widens:
  assumes n: "2 \<le> length values" and c: "0 < c1" "c1 \<le> c2" "c2 < 1"
    and mono: "quantile_nondecreasing L
                 \<lparr>Mu = Finite 0, Sigma = Finite 0, Nu = Finite (real (length values) - 1)\<rparr>"
    and sd: "\<not> f64_lt (stat_StdDev L values) (Finite 0)"
  shows "\<exists>iv1 iv2. confidenceInterval L values (Finite c1) = Some iv1
           \<and> confidenceInterval L values (Finite c2) = Some iv2
           \<and> interval_contains iv2 iv1
           \<and> ((\<exists>m s. stat_Mean L values = Finite m \<and> stat_StdDev L values = Finite s)
                \<longrightarrow> f64_le (fst iv2) (fst iv1) \<and> f64_le (snd iv1) (snd iv2))"
proof -
  let ?s = "\<lparr>Mu = Finite 0, Sigma = Finite 0, Nu = Finite (real (length values) - 1)\<rparr>"
  let ?M = "stat_Mean L values"
  let ?se = "f64_div (stat_StdDev L values) (math_Sqrt (Finite (real (length values))))"
  from c have "1 / 2 < (1 + c1) / 2 \<and> (1 + c1) / 2 \<le> (1 + c2) / 2 \<and> (1 + c2) / 2 < 1"
    by simp
  with mono obtain q1 q2 where
    q1: "StudentsT_Quantile L ?s (Finite ((1 + c1) / 2)) = Some (Finite q1)"
    and q2: "StudentsT_Quantile L ?s (Finite ((1 + c2) / 2)) = Some (Finite q2)"
    and q: "q1 \<le> q2"
    unfolding quantile_nondecreasing_def by blast
  have ci1: "confidenceInterval L values (Finite c1) =
      Some (f64_sub ?M (f64_mul (Finite q1) ?se), f64_add ?M (f64_mul (Finite q1) ?se))"
    by (rule confidenceInterval_eq) (simp add: q1)
  have ci2: "confidenceInterval L values (Finite c2) =
      Some (f64_sub ?M (f64_mul (Finite q2) ?se), f64_add ?M (f64_mul (Finite q2) ?se))"
    by (rule confidenceInterval_eq) (simp add: q2)
  from n have r: "0 < sqrt (real (length values))" by auto
  have cont: "interval_contains
      (f64_sub ?M (f64_mul (Finite q2) ?se), f64_add ?M (f64_mul (Finite q2) ?se))
      (f64_sub ?M (f64_mul (Finite q1) ?se), f64_add ?M (f64_mul (Finite q1) ?se))"
  proof (cases "stat_StdDev L values")
    case (Finite s)
    with sd have s: "0 \<le> s" by simp
    from Finite r have se: "?se = Finite (s / sqrt (real (length values)))" by simp
    from s r q have "q1 * (s / sqrt (real (length values))) \<le> q2 * (s / sqrt (real (length values)))"
      by (intro mult_right_mono) simp_all
    then show ?thesis unfolding se by (simp add: interval_finite_margins)
  next
    case PosInf
    with r have se: "?se = PosInf" by simp
    show ?thesis unfolding se by (rule interval_infinite_margins[OF q])
  next
    case NegInf
    with sd show ?thesis by simp
  next
    case NaN
    then have se: "?se = NaN" by simp
    show ?thesis unfolding se by (simp add: interval_nan_margin)
  qed
  have ends: "f64_le (f64_sub ?M (f64_mul (Finite q2) ?se)) (f64_sub ?M (f64_mul (Finite q1) ?se))
      \<and> f64_le (f64_add ?M (f64_mul (Finite q1) ?se)) (f64_add ?M (f64_mul (Finite q2) ?se))"
    if f: "stat_Mean L values = Finite m" "stat_StdDev L values = Finite s" for m s
  proof -
    from f(2) sd have s: "0 \<le> s" by simp
    from f(2) r have se: "?se = Finite (s / sqrt (real (length values)))" by simp
    from s r q have "q1 * (s / sqrt (real (length values))) \<le> q2 * (s / sqrt (real (length values)))"
      by (intro mult_right_mono) simp_all
    then show ?thesis unfolding se f(1) by (simp add: f64_sub_def)
  qed
  from ci1 ci2 cont ends show ?thesis by auto
qed


text \<open>The quantile of the library instance is nondecreasing.\<close>

lemma t2_quantile_mono:
  assumes "1 / 2 < p" "p \<le> p'" "p' < (1::real)"
  shows "(2 * p - 1) / sqrt (2 * p * (1 - p)) \<le> (2 * p' - 1) / sqrt (2 * p' * (1 - p'))"
proof (rule frac_le)
  from assms show "0 \<le> 2 * p' - 1" "2 * p - 1 \<le> 2 * p' - 1" by simp_all
  from assms have "0 < 2 * p' * (1 - p')" by simp
  then show "0 < sqrt (2 * p' * (1 - p'))" by simp
  from assms have "(p' - p) * (1 - p - p') \<le> 0"
    by (intro mult_nonneg_nonpos) simp_all
  then have "2 * p' * (1 - p') \<le> 2 * p * (1 - p)"
    by (simp add: algebra_simps)
  then show "sqrt (2 * p' * (1 - p')) \<le> sqrt (2 * p * (1 - p))" by simp
qed

lemma ref_gonum_quantile_nondecreasing:
  "quantile_nondecreasing ref_gonum \<lparr>Mu = Finite 0, Sigma = Finite 0, Nu = Finite 2\<rparr>"
  unfolding quantile_nondecreasing_def
proof (intro allI impI)
  fix p p' :: real
  assume a: "1 / 2 < p \<and> p \<le> p' \<and> p' < 1"
  then have "StudentsT_Quantile ref_gonum \<lparr>Mu = Finite 0, Sigma = Finite 0, Nu = Finite 2\<rparr> (Finite p)
      = Some (Finite ((2 * p - 1) / sqrt (2 * p * (1 - p))))"
    and "StudentsT_Quantile ref_gonum \<lparr>Mu = Finite 0, Sigma = Finite 0, Nu = Finite 2\<rparr> (Finite p')
      = Some (Finite ((2 * p' - 1) / sqrt (2 * p' * (1 - p'))))"
    by (simp_all add: ref_gonum_def ref_Quantile_def std_t_quantile_def)
  with a t2_quantile_mono[of p p']
  show "\<exists>q q'. StudentsT_Quantile ref_gonum \<lparr>Mu = Finite 0, Sigma = Finite 0, Nu = Finite 2\<rparr> (Finite p) = Some (Finite q)
      \<and> StudentsT_Quantile ref_gonum \<lparr>Mu = Finite 0, Sigma = Finite 0, Nu = Finite 2\<rparr> (Finite p') = Some (Finite q')
      \<and> q \<le> q'"
    by simp
qed

lemma ref_gonum_sample_123:
  "stat_Mean ref_gonum [Finite 1, Finite 2, Finite 3] = Finite 2"
  "stat_StdDev ref_gonum [Finite 1, Finite 2, Finite 3] = Finite (sqrt (2 / 3))"
  by (simp_all add: ref_defs)

text \<open>The sample \<open>[1, 2, 3]\<close> at the levels 0.90 and 0.99 of the claim.\<close>

theorem confidenceInterval_widens_witness:
  "\<exists>iv1 iv2. confidenceInterval ref_gonum [Finite 1, Finite 2, Finite 3] (Finite (90 / 100)) = Some iv1
     \<and> confidenceInterval ref_gonum [Finite 1, Finite 2, Finite 3] (Finite (99 / 100)) = Some iv2
     \<and> interval_contains iv2 iv1
     \<and> f64_le (fst iv2) (fst iv1) \<and> f64_le (snd iv1) (snd iv2)"
proof -
  let ?v = "[Finite 1, Finite 2, Finite 3]"
  have n: "2 \<le> length ?v" by simp
  have c: "(0::real) < 90 / 100" "(90::real) / 100 \<le> 99 / 100" "(99::real) / 100 < 1" by simp_all
  have mono: "quantile_nondecreasing ref_gonum
      \<lparr>Mu = Finite 0, Sigma = Finite 0, Nu = Finite (real (length ?v) - 1)\<rparr>"
    using ref_gonum_quantile_nondecreasing by simp
  have sd: "\<not> f64_lt (stat_StdDev ref_gonum ?v) (Finite 0)"
    by (simp add: ref_gonum_sample_123)
  have fin: "\<exists>m s. stat_Mean ref_gonum ?v = Finite m \<and> stat_StdDev ref_gonum ?v = Finite s"
    by (simp add: ref_gonum_sample_123)
  from confidenceInterval_widens[OF n c mono sd] fin show ?thesis by blast
qed

subsection \<open>The interval and its mean\<close>





end
